theory Spec2Isabelle
  imports Main "HOL-Library.Word"
begin

unbundle bit_operations_syntax

section \<open>The gumble client: data model\<close>

text \<open>
  A shallow embedding of \<^verbatim>\<open>gumble/client.go\<close> and \<^verbatim>\<open>gumble/channel.go\<close>.
  Go pointers that may be nil are options, Go maps that may be nil are optional
  lists of entries. Everything the client does to the outside (library calls,
  goroutine launches, writes on the connection, channel sends, listener
  callbacks) is appended, in program order, to a trace kept in the world state.
  The model runs one function at a time: \<^verbatim>\<open>Connect\<close>, \<^verbatim>\<open>close\<close>, \<^verbatim>\<open>Send\<close>, the channel
  methods, and the read goroutine on the bytes the server sends. The keep-alive
  goroutine and the interleaving of goroutines are outside it.
\<close>

type_synonym byte = "8 word"
type_synonym uint16 = "16 word"
type_synonym uint32 = "32 word"

text \<open>\<^verbatim>\<open>type State int\<close> with its three constants.\<close>

datatype State = StateDisconnected | StateConnected | StateSynced

text \<open>
  Go's \<^verbatim>\<open>int\<close> is 32 or 64 bits wide, depending on the target; \<^verbatim>\<open>runtime.GOOS\<close>
  and \<^verbatim>\<open>runtime.GOARCH\<close> are constants of the target as well.
\<close>

datatype IntSize = Int32 | Int64

record platform =
  GOOS :: string
  GOARCH :: string
  intSize :: IntSize

text \<open>
  \<^verbatim>\<open>ErrState\<close> is the one error value this package creates. The errors of
  \<^verbatim>\<open>gopus.NewEncoder\<close> and \<^verbatim>\<open>tls.DialWithDialer\<close> are values of those libraries,
  passed through unchanged; they carry their message.
\<close>

datatype error = ErrState | ErrExternal string

text \<open>Library types the client only stores and passes on.\<close>

datatype net_Dialer = net_Dialer nat
datatype tls_Config = tls_Config string bool
datatype EventListener = EventListener nat
datatype Application = Voip | Audio | RestrictedLowdelay

datatype gopus_Encoder =
  gopus_Encoder (enc_sampleRate: int) (enc_channels: int) (enc_application: Application)
    (enc_vbr: bool)

definition SetVbr :: "gopus_Encoder \<Rightarrow> bool \<Rightarrow> gopus_Encoder" where
  "SetVbr encoder v =
     gopus_Encoder (enc_sampleRate encoder) (enc_channels encoder) (enc_application encoder) v"

text \<open>
  \<^verbatim>\<open>Config\<close> is declared in another file of the package; these are the fields
  \<^verbatim>\<open>client.go\<close> reads. \<^verbatim>\<open>Listener\<close> is an interface value and may be nil.
\<close>

record Config =
  Username :: string
  Password :: string
  Address :: string
  Tokens :: "string list"
  Listener :: "EventListener option"
  TlsConfig :: tls_Config
  Dialer :: net_Dialer

datatype User = User (session: nat) (user_name: string)
datatype VoiceTarget = VoiceTarget nat
datatype ContextAction = ContextAction string

text \<open>
  \<^verbatim>\<open>type Channel struct\<close>. The \<^verbatim>\<open>client\<close> pointer is the one client of the world
  state below; the \<^verbatim>\<open>parent\<close> pointer is kept as the parent's id. \<^verbatim>\<open>children\<close>
  is a Go map, ranged over in an order Go leaves open: the list holds the children
  in the order the \<^verbatim>\<open>range\<close> statement visits them.
\<close>

datatype Channel =
  Channel (channel_id: uint32) (parent: "uint32 option") (children: "Channel list")
    (name: string) (description: string) (descriptionHash: "byte list option")
    (position: "32 word") (temporary: bool)

type_synonym Channels = "Channel list"
type_synonym Users = "User list"
type_synonym ContextActions = "ContextAction list"

record Version =
  version :: uint32
  release :: string
  os :: string
  osVersion :: string

text \<open>
  \<^verbatim>\<open>type Client struct\<close>. \<^verbatim>\<open>connection\<close> and \<^verbatim>\<open>end\<close> are references into the
  world state (a TLS connection, a channel). The two mutexes are left out: every
  function below locks on entry and unlocks on return, and the model runs one
  function at a time.
\<close>

record Client =
  config :: Config
  state :: State
  self :: "User option"
  server_version :: Version
  connection :: "nat option"
  tls :: tls_Config
  users :: "Users option"
  channels :: "Channels option"
  contextActions :: "ContextActions option"
  audioEncoder :: "gopus_Encoder option"
  audioSequence :: int
  audioTarget :: "VoiceTarget option"
  end_ch :: "nat option"

subsection \<open>Messages, events and the trace\<close>

text \<open>
  The protocol-buffer messages that \<^verbatim>\<open>Connect\<close> and the channel methods build. Optional fields are
  pointers in the generated Go code, hence options here.
\<close>

datatype ProtoMsg =
    MumbleProto_Version (pv_version: uint32) (pv_release: string) (pv_os: string)
      (pv_osVersion: string)
  | MumbleProto_Authenticate (pa_username: string) (pa_password: string) (pa_opus: bool)
      (pa_tokens: "string list")
  | MumbleProto_ChannelState (cs_channelId: "uint32 option") (cs_parent: "uint32 option")
      (cs_name: "string option") (cs_description: "string option")
      (cs_temporary: "bool option")
  | MumbleProto_ChannelRemove (cr_channelId: uint32)

datatype Message = protoMessage ProtoMsg

datatype DisconnectType =
  DisconnectError | DisconnectKicked | DisconnectBanned | DisconnectUser

text \<open>\<^verbatim>\<open>DisconnectEvent\<close>; its \<^verbatim>\<open>Client\<close> field points back to the one client.\<close>

datatype DisconnectEvent = DisconnectEvent (Type: DisconnectType)

datatype routine = ReadRoutine | PingRoutine

text \<open>
  What the client does to the outside. \<open>Go r c\<close>: goroutine \<open>r\<close> is launched, and \<open>c\<close>
  is the client as it is at the launch, which is what the new goroutine finds at
  the earliest. \<open>Write conn m\<close>: the frame of message \<open>m\<close> is written on connection
  \<open>conn\<close>.
\<close>

datatype effect =
    CallNewEncoder int int Application
  | CallDial net_Dialer string string tls_Config
  | Go routine Client
  | Write nat Message
  | ConnClose nat
  | ChanSend "nat option" bool
  | OnDisconnect EventListener DisconnectEvent

text \<open>
  The world: the client object, the TLS connections that are open, the next
  unused reference, and the trace.
\<close>

record world =
  client :: Client
  open_conns :: "nat list"
  next_ref :: nat
  trace :: "effect list"

definition emit :: "effect \<Rightarrow> world \<Rightarrow> world" where
  "emit e w = w\<lparr>trace := trace w @ [e]\<rparr>"

text \<open>
  What the libraries answer is a parameter: \<^verbatim>\<open>gopus.NewEncoder\<close> and
  \<^verbatim>\<open>tls.DialWithDialer\<close> (\<open>Inl\<close> the error). So is the number that
  \<^verbatim>\<open>setSemanticVersion\<close>, a method declared in another file of the package, stores
  in a \<^verbatim>\<open>Version\<close>.
\<close>

record env =
  NewEncoder :: "int \<Rightarrow> int \<Rightarrow> Application \<Rightarrow> string + gopus_Encoder"
  DialWithDialer :: "net_Dialer \<Rightarrow> string \<Rightarrow> string \<Rightarrow> tls_Config \<Rightarrow> string + unit"
  setSemanticVersion :: "nat \<Rightarrow> nat \<Rightarrow> nat \<Rightarrow> uint32"

section \<open>Constants\<close>

definition maximumPacketSize :: int where
  "maximumPacketSize = 1024 * 1024 * 10"

text \<open>
  Modelled from the spec: the constant \<^verbatim>\<open>AudioSampleRate\<close> is missing; it is
  declared in another file of the package. The spec's encoder contract gives
  \<^verbatim>\<open>sample_rate=48000\<close>.
\<close>

definition AudioSampleRate :: int where
  "AudioSampleRate = 48000"

section \<open>Creating a client\<close>

text \<open>
  \<^verbatim>\<open>NewClient\<close>: nil for a nil config; otherwise a client with \<^verbatim>\<open>config\<close> and
  \<^verbatim>\<open>state\<close> set and every other field at its zero value.
\<close>

definition NewClient :: "Config option \<Rightarrow> Client option" where
  "NewClient cfg =
     (case cfg of
        None \<Rightarrow> None
      | Some c \<Rightarrow>
          Some \<lparr>config = c, state = StateDisconnected, self = None,
            server_version = \<lparr>version = 0, release = [], os = [], osVersion = []\<rparr>,
            connection = None, tls = tls_Config [] False, users = None, channels = None,
            contextActions = None, audioEncoder = None, audioSequence = 0,
            audioTarget = None, end_ch = None\<rparr>)"

section \<open>Sending\<close>

text \<open>
  Modelled from the spec: \<^verbatim>\<open>protoMessage.writeTo\<close> is missing; it is defined in
  another file of the package, not in \<^verbatim>\<open>client.go\<close> or \<^verbatim>\<open>channel.go\<close>. The spec says
  of sending: ``if the connection is nil, fails with InvalidState; encodes and
  writes''. The frame written is recorded in the trace as the message itself, on
  the connection it went to; the byte count \<^verbatim>\<open>writeTo\<close> returns is dropped by
  \<^verbatim>\<open>Send\<close>.
\<close>

definition writeTo :: "Message \<Rightarrow> world \<Rightarrow> nat option \<Rightarrow> error option \<times> world" where
  "writeTo message w conn =
     (case conn of
        None \<Rightarrow> (Some ErrState, w)
      | Some c \<Rightarrow> (None, emit (Write c message) w))"

text \<open>\<^verbatim>\<open>Send\<close>: under the send mutex, \<^verbatim>\<open>message.writeTo(c, c.connection)\<close>.\<close>

definition Send :: "Message \<Rightarrow> world \<Rightarrow> error option \<times> world" where
  "Send message w =
     (case writeTo message w (connection (client w)) of
        (Some err, w') \<Rightarrow> (Some err, w')
      | (None, w') \<Rightarrow> (None, w'))"

section \<open>Connecting\<close>

definition Connect :: "platform \<Rightarrow> env \<Rightarrow> world \<Rightarrow> error option \<times> world" where
  "Connect P E w0 =
     (if state (client w0) \<noteq> StateDisconnected then (Some ErrState, w0)
      else
        let w1 = emit (CallNewEncoder AudioSampleRate 1 Voip) w0 in
        case NewEncoder E AudioSampleRate 1 Voip of
          Inl err \<Rightarrow> (Some (ErrExternal err), w1)
        | Inr encoder \<Rightarrow>
            let w2 = w1\<lparr>client := (client w1)\<lparr>audioEncoder := Some (SetVbr encoder False),
                       audioSequence := 0, audioTarget := None\<rparr>\<rparr>;
                cfg = config (client w2);
                w3 = emit (CallDial (Dialer cfg) ''tcp'' (Address cfg) (TlsConfig cfg)) w2
            in
            case DialWithDialer E (Dialer cfg) ''tcp'' (Address cfg) (TlsConfig cfg) of
              Inl err \<Rightarrow>
                (Some (ErrExternal err), w3\<lparr>client := (client w3)\<lparr>audioEncoder := None\<rparr>\<rparr>)
            | Inr _ \<Rightarrow>
                let conn = next_ref w3;
                    w4 = w3\<lparr>open_conns := conn # open_conns w3, next_ref := Suc conn\<rparr>;
                    w5 = w4\<lparr>client := (client w4)\<lparr>connection := Some conn,
                           users := Some [], channels := Some [], contextActions := Some [],
                           state := StateConnected\<rparr>\<rparr>;
                    ch = next_ref w5;
                    w6 = w5\<lparr>next_ref := Suc ch,
                           client := (client w5)\<lparr>end_ch := Some ch\<rparr>\<rparr>;
                    w7 = emit (Go ReadRoutine (client w6)) w6;
                    w8 = emit (Go PingRoutine (client w7)) w7;
                    ver = \<lparr>version = setSemanticVersion E 1 2 4, release = ''gumble'',
                            os = GOOS P, osVersion = GOARCH P\<rparr>;
                    versionPacket = MumbleProto_Version (version ver) (release ver)
                                      (os ver) (osVersion ver);
                    authenticationPacket =
                      MumbleProto_Authenticate (Username (config (client w8)))
                        (Password (config (client w8))) True (Tokens (config (client w8)));
                    w9 = snd (Send (protoMessage versionPacket) w8);
                    w10 = snd (Send (protoMessage authenticationPacket) w9)
                in (None, w10))"

section \<open>Closing\<close>

text \<open>
  \<^verbatim>\<open>close\<close>, under the close mutex. The send on \<^verbatim>\<open>c.end\<close> completes when the
  keep-alive goroutine that \<^verbatim>\<open>Connect\<close> launched receives it; the model records
  the send. The listener is the host's code: its call is recorded, not run.
\<close>

definition close :: "DisconnectEvent \<Rightarrow> world \<Rightarrow> error option \<times> world" where
  "close event w =
     (case connection (client w) of
        None \<Rightarrow> (Some ErrState, w)
      | Some conn \<Rightarrow>
          let w1 = emit (ChanSend (end_ch (client w)) True) w;
              w2 = (emit (ConnClose conn) w1)\<lparr>open_conns := removeAll conn (open_conns w1)\<rparr>;
              w3 = w2\<lparr>client := (client w2)\<lparr>connection := None,
                     state := StateDisconnected, users := None, channels := None,
                     contextActions := None, self := None, audioEncoder := None\<rparr>\<rparr>
          in (None,
              (case Listener (config (client w3)) of
                 None \<Rightarrow> w3
               | Some listener \<Rightarrow> emit (OnDisconnect listener event) w3)))"

definition Disconnect :: "world \<Rightarrow> error option \<times> world" where
  "Disconnect w = close (DisconnectEvent DisconnectUser) w"

definition SetVoiceTarget :: "VoiceTarget option \<Rightarrow> world \<Rightarrow> world" where
  "SetVoiceTarget target w = w\<lparr>client := (client w)\<lparr>audioTarget := target\<rparr>\<rparr>"

section \<open>Channel methods\<close>

definition Add :: "Channel \<Rightarrow> string \<Rightarrow> bool \<Rightarrow> world \<Rightarrow> world" where
  "Add c nm temp w =
     snd (Send (protoMessage
       (MumbleProto_ChannelState None (Some (channel_id c)) (Some nm) None (Some temp))) w)"

definition Remove :: "Channel \<Rightarrow> world \<Rightarrow> world" where
  "Remove c w = snd (Send (protoMessage (MumbleProto_ChannelRemove (channel_id c))) w)"

definition SetName :: "Channel \<Rightarrow> string \<Rightarrow> world \<Rightarrow> world" where
  "SetName c nm w =
     snd (Send (protoMessage
       (MumbleProto_ChannelState (Some (channel_id c)) None (Some nm) None None)) w)"

definition SetDescription :: "Channel \<Rightarrow> string \<Rightarrow> world \<Rightarrow> world" where
  "SetDescription c d w =
     snd (Send (protoMessage
       (MumbleProto_ChannelState (Some (channel_id c)) None None (Some d) None)) w)"

text \<open>
  \<^verbatim>\<open>Find\<close>: the receiver for no names; otherwise the first child, in the order of
  the \<^verbatim>\<open>range\<close> loop, whose name is \<^verbatim>\<open>names[0]\<close> answers for the remaining names,
  and nil when the loop ends without one.
\<close>

fun Find :: "Channel \<Rightarrow> string list \<Rightarrow> Channel option" where
  "Find c [] = Some c"
| "Find c (n # ns) =
     (case find (\<lambda>child. name child = n) (children c) of
        None \<Rightarrow> None
      | Some child \<Rightarrow> Find child ns)"

section \<open>The read loop\<close>

text \<open>
  The bytes the server sends on the connection are the argument \<open>input\<close> of the
  loop: what is still to arrive before the stream ends or the read deadline
  (\<^verbatim>\<open>2 * pingInterval\<close>, set before every header) passes. \<^verbatim>\<open>io.ReadFull\<close> on a
  buffer of \<open>n\<close> bytes returns at once for \<open>n = 0\<close>; otherwise it fails on a closed
  connection and when fewer than \<open>n\<close> bytes arrive.
\<close>

definition ReadFull ::
  "world \<Rightarrow> nat \<Rightarrow> byte list \<Rightarrow> nat \<Rightarrow> (byte list \<times> byte list) option" where
  "ReadFull w conn input n =
     (if n = 0 then Some ([], input)
      else if conn \<in> set (open_conns w) \<and> n \<le> length input
        then Some (take n input, drop n input)
      else None)"

text \<open>\<^verbatim>\<open>binary.BigEndian\<close>: the first byte is the most significant.\<close>

definition BigEndian_Uint16 :: "byte list \<Rightarrow> uint16" where
  "BigEndian_Uint16 b = ucast (b ! 1) OR push_bit 8 (ucast (b ! 0))"

definition BigEndian_Uint32 :: "byte list \<Rightarrow> uint32" where
  "BigEndian_Uint32 b =
     ucast (b ! 3) OR push_bit 8 (ucast (b ! 2)) OR push_bit 16 (ucast (b ! 1))
       OR push_bit 24 (ucast (b ! 0))"

text \<open>\<^verbatim>\<open>binary.Read\<close> into a \<^verbatim>\<open>uint16\<close> and into a \<^verbatim>\<open>uint32\<close>: 2 and 4 bytes, read in full.\<close>

definition binary_Read_uint16 ::
  "world \<Rightarrow> nat \<Rightarrow> byte list \<Rightarrow> (uint16 \<times> byte list) option" where
  "binary_Read_uint16 w conn input =
     (case ReadFull w conn input 2 of
        None \<Rightarrow> None
      | Some (bs, rest) \<Rightarrow> Some (BigEndian_Uint16 bs, rest))"

definition binary_Read_uint32 ::
  "world \<Rightarrow> nat \<Rightarrow> byte list \<Rightarrow> (uint32 \<times> byte list) option" where
  "binary_Read_uint32 w conn input =
     (case ReadFull w conn input 4 of
        None \<Rightarrow> None
      | Some (bs, rest) \<Rightarrow> Some (BigEndian_Uint32 bs, rest))"

text \<open>
  \<^verbatim>\<open>int(pLength)\<close>: the value itself where \<^verbatim>\<open>int\<close> has 64 bits, its two's
  complement reading where \<^verbatim>\<open>int\<close> has 32.
\<close>

definition int_of_uint32 :: "platform \<Rightarrow> uint32 \<Rightarrow> int" where
  "int_of_uint32 P x = (case intSize P of Int64 \<Rightarrow> uint x | Int32 \<Rightarrow> sint x)"

text \<open>
  The table \<^verbatim>\<open>handlers\<close> is declared in another file of the package and is a
  parameter: a handler gets the client (here: the world) and the payload.
\<close>

type_synonym handlers = "uint16 \<Rightarrow> (world \<Rightarrow> byte list \<Rightarrow> world) option"

text \<open>How a goroutine ends: by returning, or by a run-time panic.\<close>

datatype exit = Returned | Panicked

text \<open>
  The \<^verbatim>\<open>for\<close> loop of \<^verbatim>\<open>readRoutine\<close>. \<open>cap\<close> is the capacity of the buffer
  \<^verbatim>\<open>data\<close>. The slice expression \<^verbatim>\<open>data[:pLengthInt]\<close> panics for a negative
  length.
\<close>

function readLoop ::
  "platform \<Rightarrow> handlers \<Rightarrow> nat \<Rightarrow> nat \<Rightarrow> byte list \<Rightarrow> world \<Rightarrow> exit \<times> world" where
  "readLoop P hs conn cap input w =
     (case binary_Read_uint16 w conn input of
        None \<Rightarrow> (Returned, w)
      | Some (pType, input1) \<Rightarrow>
          (case binary_Read_uint32 w conn input1 of
             None \<Rightarrow> (Returned, w)
           | Some (pLength, input2) \<Rightarrow>
               (let pLengthInt = int_of_uint32 P pLength in
                if pLengthInt > maximumPacketSize then (Returned, w)
                else
                  let cap' = (if pLengthInt > int cap then nat pLengthInt else cap) in
                  if pLengthInt < 0 then (Panicked, w)
                  else
                    (case ReadFull w conn input2 (nat pLengthInt) of
                       None \<Rightarrow> (Returned, w)
                     | Some (data, input3) \<Rightarrow>
                         (case hs pType of
                            Some handle \<Rightarrow> readLoop P hs conn cap' input3 (handle w data)
                          | None \<Rightarrow> readLoop P hs conn cap' input3 w)))))"
  by pat_completeness auto

text \<open>Every round consumes the six header bytes, so the loop ends with the input.\<close>

termination readLoop
  by (relation "measure (\<lambda>(P, hs, conn, cap, input, w). length input)")
    (auto simp: binary_Read_uint16_def binary_Read_uint32_def ReadFull_def
      split: option.splits if_splits)

declare readLoop.simps [simp del]


text \<open>The \<^verbatim>\<open>Disconnect\<close> events handed to the listener, in order.\<close>

fun delivered :: "effect list \<Rightarrow> DisconnectEvent list" where
  "delivered [] = []"
| "delivered (OnDisconnect l ev # es) = ev # delivered es"
| "delivered (e # es) = delivered es"

text \<open>What a client must satisfy between sessions: \<^verbatim>\<open>NewClient\<close> and \<^verbatim>\<open>close\<close> leave it so.\<close>

definition disconnected :: "Client \<Rightarrow> bool" where
  "disconnected c =
     (state c = StateDisconnected \<and> connection c = None \<and> audioEncoder c = None)"

text \<open>
  \<open>precedes a b es\<close>: in the trace \<open>es\<close>, \<open>a\<close> happens and \<open>b\<close> happens after the first \<open>a\<close>.
\<close>

definition precedes :: "effect \<Rightarrow> effect \<Rightarrow> effect list \<Rightarrow> bool" where
  "precedes a b es = (b \<in> set (dropWhile (\<lambda>e. e \<noteq> a) es))"

section \<open>Example values\<close>

definition ex_config :: Config where
  "ex_config =
     \<lparr>Username = ''alice'', Password = ''secret'', Address = ''mumble.example:64738'',
      Tokens = [''t1''], Listener = Some (EventListener 0),
      TlsConfig = tls_Config ''mumble.example'' False, Dialer = net_Dialer 5\<rparr>"

definition ex_platform :: platform where
  "ex_platform = \<lparr>GOOS = ''linux'', GOARCH = ''amd64'', intSize = Int64\<rparr>"

definition ex_env :: env where
  "ex_env =
     \<lparr>NewEncoder = (\<lambda>rate chans app. Inr (gopus_Encoder rate chans app True)),
      DialWithDialer = (\<lambda>d network addr cfg. Inr ()),
      setSemanticVersion = (\<lambda>major minor patch. 66052)\<rparr>"

definition world_of :: "Client \<Rightarrow> world" where
  "world_of c = \<lparr>client = c, open_conns = [], next_ref = 0, trace = []\<rparr>"

definition ex_world :: world where
  "ex_world = world_of (the (NewClient (Some ex_config)))"

definition ex_session :: "Config \<Rightarrow> Client" where
  "ex_session cfg =
     \<lparr>config = cfg, state = StateConnected, self = None,
      server_version = \<lparr>version = 0, release = [], os = [], osVersion = []\<rparr>,
      connection = Some 0, tls = tls_Config [] False, users = Some [],
      channels = Some [], contextActions = Some [],
      audioEncoder = Some (gopus_Encoder 48000 1 Voip False), audioSequence = 0,
      audioTarget = None, end_ch = Some 1\<rparr>"

definition ex_connected :: world where
  "ex_connected = snd (Connect ex_platform ex_env ex_world)"

text \<open>An environment whose dial fails, and a session of a client with no listener.\<close>

definition ex_env_no_dial :: env where
  "ex_env_no_dial =
     ex_env\<lparr>DialWithDialer := (\<lambda>d network addr cfg. Inl ''connection refused'')\<rparr>"

definition ex_silent :: world where
  "ex_silent =
     snd (Connect ex_platform ex_env
       (world_of (the (NewClient (Some (ex_config\<lparr>Listener := None\<rparr>))))))"

text \<open>A handler table with one entry: type 5 marks the client as synced.\<close>

definition ex_handlers :: handlers where
  "ex_handlers t =
     (if t = 5 then Some (\<lambda>w data. w\<lparr>client := (client w)\<lparr>state := StateSynced\<rparr>\<rparr>)
      else None)"

definition ex_games :: Channel where
  "ex_games = Channel 2 (Some 1) [] ''Games'' [] None 0 False"

definition ex_lobby :: Channel where
  "ex_lobby = Channel 1 (Some 0) [ex_games] ''Lobby'' [] None 0 False"

definition ex_root :: Channel where
  "ex_root = Channel 0 None [ex_lobby] ''Root'' [] None 0 False"

section \<open>Creating a client: NewClient\<close>

text \<open>
  Claim C9. \<^verbatim>\<open>NewClient\<close> returns nil when its config argument is nil; for every
  non-nil config it returns a client whose state is Disconnected and whose config
  is the given config.
\<close>

theorem NewClient_result:
  "NewClient None = None \<and>
   (\<forall>cfg. \<exists>c. NewClient (Some cfg) = Some c \<and> state c = StateDisconnected \<and> config c = cfg)"
  by (simp add: NewClient_def)

lemma NewClient_disconnected: "NewClient (Some cfg) = Some c \<Longrightarrow> disconnected c"
  by (auto simp: NewClient_def disconnected_def)

section \<open>Channel lookup by path: Find\<close>

lemma Find_first_match:
  "find (\<lambda>child. name child = n) (children c) = Some child \<Longrightarrow>
     Find c (n # ns) = Find child ns"
  by simp

text \<open>
  Claim C6. For every channel \<open>c\<close> and every sequence of names, \<^verbatim>\<open>Find\<close> returns \<open>c\<close>
  itself when the sequence is empty; otherwise, if some child of \<open>c\<close> has the first
  name, it returns the result of \<^verbatim>\<open>Find\<close> on such a child with the remaining names,
  and it returns nil when no child has the first name.
\<close>

theorem Find_descends:
  "Find c [] = Some c \<and>
   ((\<exists>child \<in> set (children c). name child = n) \<longrightarrow>
      (\<exists>child \<in> set (children c). name child = n \<and> Find c (n # ns) = Find child ns)) \<and>
   ((\<forall>child \<in> set (children c). name child \<noteq> n) \<longrightarrow> Find c (n # ns) = None)"
proof (intro conjI impI)
  show "Find c [] = Some c" by simp
next
  assume "\<exists>child \<in> set (children c). name child = n"
  then obtain child where hit: "find (\<lambda>child. name child = n) (children c) = Some child"
    by (cases "find (\<lambda>child. name child = n) (children c)") (auto simp: find_None_iff)
  then have "child \<in> set (children c)" and "name child = n"
    by (auto simp: find_Some_iff)
  with Find_first_match [OF hit]
  show "\<exists>child \<in> set (children c). name child = n \<and> Find c (n # ns) = Find child ns"
    by blast
next
  assume "\<forall>child \<in> set (children c). name child \<noteq> n"
  then have "find (\<lambda>child. name child = n) (children c) = None"
    by (simp add: find_None_iff)
  then show "Find c (n # ns) = None" by simp
qed

theorem Find_descends_witness:
  "Find ex_root [] = Some ex_root \<and>
   (\<exists>child \<in> set (children ex_root). name child = ''Lobby'' \<and>
      Find ex_root [''Lobby'', ''Games''] = Find child [''Games'']) \<and>
   Find ex_root [''Lobby'', ''Games''] = Some ex_games \<and>
   Find ex_root [''Attic'', ''Games''] = None"
  using Find_descends [of ex_root "''Lobby''" "[''Games'']"]
    Find_descends [of ex_root "''Attic''" "[''Games'']"]
  by (simp add: ex_root_def ex_lobby_def ex_games_def)

section \<open>Sending: Send and the request methods\<close>

lemma Send_eq:
  "Send m w =
     (case connection (client w) of
        None \<Rightarrow> (Some ErrState, w)
      | Some c \<Rightarrow> (None, w\<lparr>trace := trace w @ [Write c m]\<rparr>))"
  by (simp add: Send_def writeTo_def emit_def split: option.splits)

text \<open>
  Claim C5. \<^verbatim>\<open>Send\<close> fails with the InvalidState error whenever the client's
  connection is nil, and in that case writes nothing (the world is unchanged);
  when the connection is non-nil the message is written on it. \<^verbatim>\<open>Send\<close> has no
  check of its own: the answer for a nil connection is the one of \<open>writeTo\<close>.
\<close>

theorem Send_nil_connection:
  "(connection (client w) = None \<longrightarrow> Send m w = (Some ErrState, w)) \<and>
   (\<forall>c. connection (client w) = Some c \<longrightarrow>
      Send m w = (None, w\<lparr>trace := trace w @ [Write c m]\<rparr>))"
  by (simp add: Send_eq)

text \<open>
  Claim C8. \<^verbatim>\<open>Channel.Add\<close>, \<^verbatim>\<open>Channel.Remove\<close>, \<^verbatim>\<open>Channel.SetName\<close> and
  \<^verbatim>\<open>Channel.SetDescription\<close> only send a protocol message: the client, and with
  it every channel it holds, is unchanged, and the trace grows by the one message
  (by nothing when there is no connection). \<^verbatim>\<open>SetVoiceTarget\<close> changes the field
  \<^verbatim>\<open>audioTarget\<close> only and sends nothing.
\<close>

theorem request_methods_frame:
  "Add c nm temp w =
     w\<lparr>trace := trace w @
       (case connection (client w) of
          None \<Rightarrow> []
        | Some conn \<Rightarrow>
            [Write conn (protoMessage (MumbleProto_ChannelState None (Some (channel_id c))
               (Some nm) None (Some temp)))])\<rparr> \<and>
   Remove c w =
     w\<lparr>trace := trace w @
       (case connection (client w) of
          None \<Rightarrow> []
        | Some conn \<Rightarrow> [Write conn (protoMessage (MumbleProto_ChannelRemove (channel_id c)))])\<rparr> \<and>
   SetName c nm w =
     w\<lparr>trace := trace w @
       (case connection (client w) of
          None \<Rightarrow> []
        | Some conn \<Rightarrow>
            [Write conn (protoMessage (MumbleProto_ChannelState (Some (channel_id c)) None
               (Some nm) None None))])\<rparr> \<and>
   SetDescription c d w =
     w\<lparr>trace := trace w @
       (case connection (client w) of
          None \<Rightarrow> []
        | Some conn \<Rightarrow>
            [Write conn (protoMessage (MumbleProto_ChannelState (Some (channel_id c)) None
               None (Some d) None))])\<rparr> \<and>
   client (Add c nm temp w) = client w \<and> client (Remove c w) = client w \<and>
   client (SetName c nm w) = client w \<and> client (SetDescription c d w) = client w \<and>
   trace (SetVoiceTarget target w) = trace w \<and>
   audioTarget (client (SetVoiceTarget target w)) = target \<and>
   (SetVoiceTarget target w)\<lparr>client :=
      (client (SetVoiceTarget target w))\<lparr>audioTarget := audioTarget (client w)\<rparr>\<rparr> = w"
  by (simp add: Add_def Remove_def SetName_def SetDescription_def SetVoiceTarget_def Send_eq
      split: option.splits)

section \<open>Connecting: Connect\<close>

lemma Connect_refused:
  "state (client w) \<noteq> StateDisconnected \<Longrightarrow> Connect P E w = (Some ErrState, w)"
  by (simp add: Connect_def)

lemma Connect_not_ErrState:
  "state (client w) = StateDisconnected \<Longrightarrow> fst (Connect P E w) \<noteq> Some ErrState"
  by (simp add: Connect_def Let_def split: sum.splits)

lemma Connect_encoder_fails:
  assumes "state (client w) = StateDisconnected"
    and "NewEncoder E AudioSampleRate 1 Voip = Inl err"
  shows "Connect P E w = (Some (ErrExternal err), emit (CallNewEncoder AudioSampleRate 1 Voip) w)"
  using assms by (simp add: Connect_def Let_def)

lemma Connect_dial_fails:
  assumes "state (client w) = StateDisconnected"
    and "NewEncoder E AudioSampleRate 1 Voip = Inr enc"
    and "DialWithDialer E (Dialer (config (client w))) ''tcp'' (Address (config (client w)))
           (TlsConfig (config (client w))) = Inl err"
  shows "Connect P E w =
     (Some (ErrExternal err),
      w\<lparr>client := (client w)\<lparr>audioEncoder := None, audioSequence := 0, audioTarget := None\<rparr>,
        trace := trace w @ [CallNewEncoder AudioSampleRate 1 Voip,
          CallDial (Dialer (config (client w))) ''tcp'' (Address (config (client w)))
            (TlsConfig (config (client w)))]\<rparr>)"
  using assms by (simp add: Connect_def Let_def emit_def)

lemma Connect_succeeds:
  fixes w :: world and enc :: gopus_Encoder
  defines "c' \<equiv> (client w)\<lparr>audioEncoder := Some (SetVbr enc False), audioSequence := 0,
          audioTarget := None, connection := Some (next_ref w), users := Some [],
          channels := Some [], contextActions := Some [], state := StateConnected,
          end_ch := Some (Suc (next_ref w))\<rparr>"
  assumes "state (client w) = StateDisconnected"
    and "NewEncoder E AudioSampleRate 1 Voip = Inr enc"
    and "DialWithDialer E (Dialer (config (client w))) ''tcp'' (Address (config (client w)))
           (TlsConfig (config (client w))) = Inr u"
  shows "Connect P E w =
     (None,
      \<lparr>client = c',
       open_conns = next_ref w # open_conns w,
       next_ref = Suc (Suc (next_ref w)),
       trace = trace w @
         [CallNewEncoder AudioSampleRate 1 Voip,
          CallDial (Dialer (config (client w))) ''tcp'' (Address (config (client w)))
            (TlsConfig (config (client w))),
          Go ReadRoutine c', Go PingRoutine c',
          Write (next_ref w) (protoMessage (MumbleProto_Version (setSemanticVersion E 1 2 4)
            ''gumble'' (GOOS P) (GOARCH P))),
          Write (next_ref w) (protoMessage (MumbleProto_Authenticate
            (Username (config (client w))) (Password (config (client w))) True
            (Tokens (config (client w)))))]\<rparr>)"
  using assms(2-) by (simp add: Connect_def Let_def emit_def Send_def writeTo_def c'_def)

text \<open>The example worlds, evaluated.\<close>

lemma ex_world_eq:
  "ex_world =
     \<lparr>client = \<lparr>config = ex_config, state = StateDisconnected, self = None,
            server_version = \<lparr>version = 0, release = [], os = [], osVersion = []\<rparr>,
            connection = None, tls = tls_Config [] False, users = None, channels = None,
            contextActions = None, audioEncoder = None, audioSequence = 0,
            audioTarget = None, end_ch = None\<rparr>,
      open_conns = [], next_ref = 0, trace = []\<rparr>"
  by (simp add: ex_world_def world_of_def NewClient_def)

lemma ex_session_fields [simp]:
  "config (ex_session cfg) = cfg"
  "state (ex_session cfg) = StateConnected"
  "connection (ex_session cfg) = Some 0"
  "users (ex_session cfg) = Some []"
  "channels (ex_session cfg) = Some []"
  "contextActions (ex_session cfg) = Some []"
  "audioEncoder (ex_session cfg) = Some (gopus_Encoder 48000 1 Voip False)"
  "end_ch (ex_session cfg) = Some 1"
  by (simp_all add: ex_session_def)

lemma ex_Connect_eq:
  "Connect ex_platform ex_env ex_world =
     (None,
      \<lparr>client = ex_session ex_config,
      open_conns = [0], next_ref = 2,
      trace =
        [CallNewEncoder 48000 1 Voip,
         CallDial (net_Dialer 5) ''tcp'' ''mumble.example:64738''
           (tls_Config ''mumble.example'' False),
         Go ReadRoutine (ex_session ex_config), Go PingRoutine (ex_session ex_config),
         Write 0 (protoMessage (MumbleProto_Version 66052 ''gumble'' ''linux'' ''amd64'')),
         Write 0 (protoMessage (MumbleProto_Authenticate ''alice'' ''secret'' True [''t1'']))]\<rparr>)"
  by (subst Connect_succeeds [where enc = "gopus_Encoder 48000 1 Voip True" and u = "()"])
    (simp_all add: ex_world_eq ex_env_def ex_platform_def ex_config_def AudioSampleRate_def
      SetVbr_def ex_session_def)

lemmas ex_connected_eq = ex_connected_def [unfolded ex_Connect_eq snd_conv]

lemma ex_silent_eq:
  "ex_silent =
      \<lparr>client = ex_session (ex_config\<lparr>Listener := None\<rparr>),
      open_conns = [0], next_ref = 2,
      trace =
        [CallNewEncoder 48000 1 Voip,
         CallDial (net_Dialer 5) ''tcp'' ''mumble.example:64738''
           (tls_Config ''mumble.example'' False),
         Go ReadRoutine (ex_session (ex_config\<lparr>Listener := None\<rparr>)),
         Go PingRoutine (ex_session (ex_config\<lparr>Listener := None\<rparr>)),
         Write 0 (protoMessage (MumbleProto_Version 66052 ''gumble'' ''linux'' ''amd64'')),
         Write 0 (protoMessage (MumbleProto_Authenticate ''alice'' ''secret'' True [''t1'']))]\<rparr>"
  unfolding ex_silent_def
  by (subst Connect_succeeds [where enc = "gopus_Encoder 48000 1 Voip True" and u = "()"])
    (simp_all add: world_of_def NewClient_def ex_env_def ex_platform_def ex_config_def
      AudioSampleRate_def SetVbr_def ex_session_def)

text \<open>
  Witness for claim C5: a client that was never connected, and a connected one.
\<close>

theorem Send_nil_connection_witness:
  "connection (client ex_world) = None \<and>
   Send (protoMessage (MumbleProto_ChannelRemove 3)) ex_world = (Some ErrState, ex_world) \<and>
   connection (client ex_connected) = Some 0 \<and>
   Send (protoMessage (MumbleProto_ChannelRemove 3)) ex_connected =
     (None, ex_connected\<lparr>trace := trace ex_connected @
        [Write 0 (protoMessage (MumbleProto_ChannelRemove 3))]\<rparr>)"
proof -
  have n: "connection (client ex_world) = None"
    by (simp add: ex_world_eq)
  have c: "connection (client ex_connected) = Some 0"
    by (simp add: ex_connected_eq)
  from n c
    Send_nil_connection [of ex_world "protoMessage (MumbleProto_ChannelRemove 3)"]
    Send_nil_connection [of ex_connected "protoMessage (MumbleProto_ChannelRemove 3)"]
  show ?thesis
    by simp
qed

text \<open>
  Claim C3. \<^verbatim>\<open>Connect\<close> returns \<^verbatim>\<open>ErrState\<close> if and only if the client's state is
  not Disconnected at the time of the call; in that case the world, and so every
  field of the client, is as before.
\<close>

theorem Connect_ErrState_iff:
  "(fst (Connect P E w) = Some ErrState) = (state (client w) \<noteq> StateDisconnected) \<and>
   (state (client w) \<noteq> StateDisconnected \<longrightarrow> snd (Connect P E w) = w)"
  using Connect_refused [of w P E] Connect_not_ErrState [of w P E]
  by (cases "state (client w) = StateDisconnected") auto

theorem Connect_ErrState_iff_witness:
  "state (client ex_connected) \<noteq> StateDisconnected \<and>
   Connect ex_platform ex_env ex_connected = (Some ErrState, ex_connected) \<and>
   state (client ex_world) = StateDisconnected \<and>
   fst (Connect ex_platform ex_env ex_world) \<noteq> Some ErrState"
proof -
  have s: "state (client ex_connected) \<noteq> StateDisconnected"
    by (simp add: ex_connected_eq)
  have d: "state (client ex_world) = StateDisconnected"
    by (simp add: ex_world_eq)
  from s d Connect_ErrState_iff [of ex_platform ex_env ex_connected]
    Connect_ErrState_iff [of ex_platform ex_env ex_world]
  show ?thesis
    by (simp add: prod_eq_iff)
qed

text \<open>
  Claim C4, as amended. A successful \<^verbatim>\<open>Connect\<close> acts in this order: it creates the
  audio encoder (sample rate \<^verbatim>\<open>AudioSampleRate\<close>, 1 channel, VoIP profile), then
  dials with the configured dialer, address and TLS configuration, launches the
  read goroutine and the keep-alive goroutine, and writes a Version message
  followed by an Authenticate message carrying the configured username, password
  and tokens with opus set. On return the encoder has VBR off, the audio sequence
  counter is zero, the world model is allocated and empty, and the state is
  Connected.
\<close>

theorem Connect_steps:
  assumes "fst (Connect P E w) = None"
  shows "\<exists>enc. NewEncoder E AudioSampleRate 1 Voip = Inr enc \<and>
     trace (snd (Connect P E w)) = trace w @
       [CallNewEncoder AudioSampleRate 1 Voip,
        CallDial (Dialer (config (client w))) ''tcp'' (Address (config (client w)))
          (TlsConfig (config (client w))),
        Go ReadRoutine (client (snd (Connect P E w))),
        Go PingRoutine (client (snd (Connect P E w))),
        Write (next_ref w) (protoMessage (MumbleProto_Version (setSemanticVersion E 1 2 4)
          ''gumble'' (GOOS P) (GOARCH P))),
        Write (next_ref w) (protoMessage (MumbleProto_Authenticate
          (Username (config (client w))) (Password (config (client w))) True
          (Tokens (config (client w)))))] \<and>
     client (snd (Connect P E w)) =
       (client w)\<lparr>audioEncoder := Some (SetVbr enc False), audioSequence := 0,
          audioTarget := None, connection := Some (next_ref w), users := Some [],
          channels := Some [], contextActions := Some [], state := StateConnected,
          end_ch := Some (Suc (next_ref w))\<rparr> \<and>
     enc_vbr (SetVbr enc False) = False \<and>
     next_ref w \<in> set (open_conns (snd (Connect P E w)))"
proof -
  from assms have st: "state (client w) = StateDisconnected"
    by (cases "state (client w) = StateDisconnected") (simp_all add: Connect_refused)
  from assms st obtain enc where enc: "NewEncoder E AudioSampleRate 1 Voip = Inr enc"
    by (cases "NewEncoder E AudioSampleRate 1 Voip") (simp_all add: Connect_encoder_fails)
  from assms st enc obtain u where
    dial: "DialWithDialer E (Dialer (config (client w))) ''tcp'' (Address (config (client w)))
             (TlsConfig (config (client w))) = Inr u"
    by (cases "DialWithDialer E (Dialer (config (client w))) ''tcp''
          (Address (config (client w))) (TlsConfig (config (client w)))")
      (simp_all add: Connect_dial_fails)
  show ?thesis
    using enc by (simp add: Connect_succeeds [OF st enc dial] SetVbr_def)
qed

theorem Connect_steps_witness:
  "fst (Connect ex_platform ex_env ex_world) = None \<and>
   trace (snd (Connect ex_platform ex_env ex_world)) =
     [CallNewEncoder 48000 1 Voip,
      CallDial (net_Dialer 5) ''tcp'' ''mumble.example:64738''
        (tls_Config ''mumble.example'' False),
      Go ReadRoutine (ex_session ex_config), Go PingRoutine (ex_session ex_config),
      Write 0 (protoMessage (MumbleProto_Version 66052 ''gumble'' ''linux'' ''amd64'')),
      Write 0 (protoMessage (MumbleProto_Authenticate ''alice'' ''secret'' True [''t1'']))] \<and>
   state (client (snd (Connect ex_platform ex_env ex_world))) = StateConnected \<and>
   audioEncoder (client (snd (Connect ex_platform ex_env ex_world))) =
     Some (gopus_Encoder 48000 1 Voip False)"
proof -
  have ok: "fst (Connect ex_platform ex_env ex_world) = None"
    by (simp add: ex_Connect_eq)
  show ?thesis
    using ok Connect_steps [OF ok]
    by (simp add: ex_world_eq ex_env_def ex_platform_def ex_config_def AudioSampleRate_def
      SetVbr_def ex_session_def)
qed

text \<open>
  Claim C4 as stated puts the TLS dial before the creation of the encoder. In
  this successful \<^verbatim>\<open>Connect\<close> the dial does not precede the creation of the
  encoder; the creation of the encoder precedes the dial.
\<close>

theorem Connect_order_counterexample:
  "fst (Connect ex_platform ex_env ex_world) = None \<and>
   \<not> precedes
       (CallDial (net_Dialer 5) ''tcp'' ''mumble.example:64738''
         (tls_Config ''mumble.example'' False))
       (CallNewEncoder 48000 1 Voip)
       (trace (snd (Connect ex_platform ex_env ex_world))) \<and>
   precedes
       (CallNewEncoder 48000 1 Voip)
       (CallDial (net_Dialer 5) ''tcp'' ''mumble.example:64738''
         (tls_Config ''mumble.example'' False))
       (trace (snd (Connect ex_platform ex_env ex_world)))"
  by (simp add: ex_Connect_eq precedes_def)

text \<open>
  Claim C10. If the encoder cannot be created or the TLS dial fails, \<^verbatim>\<open>Connect\<close>
  returns that error, and a client that was disconnected (state Disconnected,
  connection nil, encoder nil) still is, with its config, so that a later
  \<^verbatim>\<open>Connect\<close> is not refused. \<^verbatim>\<open>NewClient\<close> and \<^verbatim>\<open>close\<close> leave a client
  disconnected in this sense (\<open>NewClient_disconnected\<close>, \<open>close_disconnected\<close>).
  After a failed dial the audio sequence counter and the voice target stay reset
  (\<open>Connect_dial_fails\<close>).
\<close>

theorem Connect_failure:
  assumes "disconnected (client w)"
    and "NewEncoder E AudioSampleRate 1 Voip = Inl err \<or>
         ((\<exists>enc. NewEncoder E AudioSampleRate 1 Voip = Inr enc) \<and>
          DialWithDialer E (Dialer (config (client w))) ''tcp'' (Address (config (client w)))
            (TlsConfig (config (client w))) = Inl err)"
  shows "fst (Connect P E w) = Some (ErrExternal err) \<and>
     state (client (snd (Connect P E w))) = StateDisconnected \<and>
     connection (client (snd (Connect P E w))) = None \<and>
     audioEncoder (client (snd (Connect P E w))) = None \<and>
     config (client (snd (Connect P E w))) = config (client w) \<and>
     fst (Connect P' E' (snd (Connect P E w))) \<noteq> Some ErrState"
proof -
  from assms(1) have st: "state (client w) = StateDisconnected"
    and rest: "connection (client w) = None" "audioEncoder (client w) = None"
    by (simp_all add: disconnected_def)
  from assms(2) show ?thesis
  proof (elim disjE conjE exE)
    assume "NewEncoder E AudioSampleRate 1 Voip = Inl err"
    from Connect_encoder_fails [OF st this, of P] st rest show ?thesis
      by (simp add: emit_def Connect_not_ErrState)
  next
    fix enc
    assume "NewEncoder E AudioSampleRate 1 Voip = Inr enc"
      and "DialWithDialer E (Dialer (config (client w))) ''tcp'' (Address (config (client w)))
            (TlsConfig (config (client w))) = Inl err"
    from Connect_dial_fails [OF st this, of P] st rest show ?thesis
      by (simp add: Connect_not_ErrState)
  qed
qed

theorem Connect_failure_witness:
  "disconnected (client ex_world) \<and>
   fst (Connect ex_platform ex_env_no_dial ex_world) = Some (ErrExternal ''connection refused'') \<and>
   state (client (snd (Connect ex_platform ex_env_no_dial ex_world))) = StateDisconnected \<and>
   connection (client (snd (Connect ex_platform ex_env_no_dial ex_world))) = None \<and>
   audioEncoder (client (snd (Connect ex_platform ex_env_no_dial ex_world))) = None \<and>
   fst (Connect ex_platform ex_env (snd (Connect ex_platform ex_env_no_dial ex_world)))
     \<noteq> Some ErrState"
proof -
  have d: "disconnected (client ex_world)"
    by (simp add: ex_world_eq disconnected_def)
  have f: "NewEncoder ex_env_no_dial AudioSampleRate 1 Voip = Inl ''connection refused'' \<or>
      ((\<exists>enc. NewEncoder ex_env_no_dial AudioSampleRate 1 Voip = Inr enc) \<and>
       DialWithDialer ex_env_no_dial (Dialer (config (client ex_world))) ''tcp''
         (Address (config (client ex_world))) (TlsConfig (config (client ex_world)))
         = Inl ''connection refused'')"
    by (simp add: ex_env_no_dial_def ex_env_def)
  show ?thesis
    using d Connect_failure [OF d f, of ex_platform ex_platform ex_env]
    by simp
qed

section \<open>Closing: close and Disconnect\<close>

lemma readLoop_closed:
  "conn \<notin> set (open_conns w) \<Longrightarrow> readLoop P hs conn cap input w = (Returned, w)"
  by (subst readLoop.simps) (simp add: binary_Read_uint16_def ReadFull_def)

lemma close_nil: "connection (client w) = None \<Longrightarrow> close ev w = (Some ErrState, w)"
  by (simp add: close_def)

lemma close_connected:
  assumes "connection (client w) = Some conn"
  shows "close ev w =
     (None,
      \<lparr>client = (client w)\<lparr>connection := None, state := StateDisconnected, users := None,
          channels := None, contextActions := None, self := None, audioEncoder := None\<rparr>,
       open_conns = removeAll conn (open_conns w),
       next_ref = next_ref w,
       trace = trace w @ [ChanSend (end_ch (client w)) True, ConnClose conn] @
         (case Listener (config (client w)) of
            None \<Rightarrow> []
          | Some listener \<Rightarrow> [OnDisconnect listener ev])\<rparr>)"
  using assms by (simp add: close_def Let_def emit_def split: option.splits)

lemma close_disconnected:
  "connection (client w) = Some conn \<Longrightarrow> disconnected (client (snd (close ev w)))"
  by (simp add: close_connected disconnected_def)

lemma delivered_append: "delivered (es @ fs) = delivered es @ delivered fs"
  by (induction es rule: delivered.induct) simp_all

text \<open>
  Claim C2, as amended. The first \<^verbatim>\<open>close\<close> on a connected client closes the
  connection, sets the state to Disconnected, clears users, channels,
  contextActions, self and the audio encoder to nil, and hands the event to the
  listener exactly once when a listener is configured, and to nobody when
  \<^verbatim>\<open>config.Listener\<close> is nil. Any later \<^verbatim>\<open>close\<close>, from \<^verbatim>\<open>Disconnect\<close> or from the
  read goroutine (whose loop returns, its read on the closed connection failing),
  returns \<^verbatim>\<open>ErrState\<close> and leaves the world as it is: no field changes and no
  event is delivered.
\<close>

theorem close_once:
  assumes "connection (client w) = Some conn"
  shows "fst (close ev w) = None \<and>
     client (snd (close ev w)) =
       (client w)\<lparr>connection := None, state := StateDisconnected, users := None,
          channels := None, contextActions := None, self := None, audioEncoder := None\<rparr> \<and>
     conn \<notin> set (open_conns (snd (close ev w))) \<and>
     trace (snd (close ev w)) =
       trace w @ [ChanSend (end_ch (client w)) True, ConnClose conn] @
         (case Listener (config (client w)) of
            None \<Rightarrow> []
          | Some listener \<Rightarrow> [OnDisconnect listener ev]) \<and>
     delivered (trace (snd (close ev w))) =
       delivered (trace w) @
         (case Listener (config (client w)) of None \<Rightarrow> [] | Some listener \<Rightarrow> [ev]) \<and>
     close ev' (snd (close ev w)) = (Some ErrState, snd (close ev w)) \<and>
     Disconnect (snd (close ev w)) = (Some ErrState, snd (close ev w)) \<and>
     readLoop P hs conn cap input (snd (close ev w)) = (Returned, snd (close ev w))"
  using assms
  by (simp add: close_connected [OF assms] close_nil Disconnect_def readLoop_closed
      delivered_append split: option.splits)

theorem close_once_witness:
  "connection (client ex_connected) = Some 0 \<and>
   fst (close (DisconnectEvent DisconnectUser) ex_connected) = None \<and>
   state (client (snd (close (DisconnectEvent DisconnectUser) ex_connected)))
     = StateDisconnected \<and>
   users (client (snd (close (DisconnectEvent DisconnectUser) ex_connected))) = None \<and>
   delivered (trace (snd (close (DisconnectEvent DisconnectUser) ex_connected)))
     = [DisconnectEvent DisconnectUser] \<and>
   close (DisconnectEvent DisconnectError)
       (snd (close (DisconnectEvent DisconnectUser) ex_connected))
     = (Some ErrState, snd (close (DisconnectEvent DisconnectUser) ex_connected))"
proof -
  have c: "connection (client ex_connected) = Some 0"
    by (simp add: ex_connected_eq)
  show ?thesis
    using c close_once [OF c, of "DisconnectEvent DisconnectUser"
        "DisconnectEvent DisconnectError"]
    by (simp add: ex_connected_eq ex_config_def)
qed

text \<open>
  Claim C2 as stated has every first \<^verbatim>\<open>close\<close> deliver exactly one event. For
  this connected client, whose config has no listener, \<^verbatim>\<open>close\<close> succeeds and
  delivers none.
\<close>

theorem close_no_listener_counterexample:
  "connection (client ex_silent) = Some 0 \<and>
   state (client ex_silent) = StateConnected \<and>
   fst (close (DisconnectEvent DisconnectUser) ex_silent) = None \<and>
   state (client (snd (close (DisconnectEvent DisconnectUser) ex_silent)))
     = StateDisconnected \<and>
   delivered (trace (snd (close (DisconnectEvent DisconnectUser) ex_silent))) = []"
  by (simp add: ex_silent_eq close_def Let_def emit_def ex_config_def)

section \<open>The read loop: readRoutine\<close>

subsection \<open>Reading a header\<close>

lemma binary_Read_uint16_open:
  "conn \<in> set (open_conns w) \<Longrightarrow>
     binary_Read_uint16 w conn (ta # tb # input) = Some (BigEndian_Uint16 [ta, tb], input)"
  by (simp add: binary_Read_uint16_def ReadFull_def)

lemma binary_Read_uint32_open:
  "conn \<in> set (open_conns w) \<Longrightarrow>
     binary_Read_uint32 w conn (la # lb # lc # ld # input) =
       Some (BigEndian_Uint32 [la, lb, lc, ld], input)"
  by (simp add: binary_Read_uint32_def ReadFull_def)

lemma ReadFull_payload:
  "conn \<in> set (open_conns w) \<Longrightarrow> length payload = n \<Longrightarrow>
     ReadFull w conn (payload @ rest) n = Some (payload, rest)"
  by (auto simp: ReadFull_def)

lemma sint_uint32: "sint (x :: uint32) = signed_take_bit 31 (uint x)"
  by (simp add: sint_uint)

lemma sint_small:
  assumes "uint (x :: uint32) < 2 ^ 31"
  shows "sint x = uint x"
proof -
  have "- (2 ^ 31) \<le> uint x"
    by (rule order_trans [of _ 0]) simp_all
  then have "signed_take_bit 31 (uint x) = uint x"
    using assms by (rule signed_take_bit_int_eq_self)
  then show ?thesis
    by (simp only: sint_uint32)
qed

lemma sint_large:
  assumes "2 ^ 31 \<le> uint (x :: uint32)"
  shows "sint x < 0"
proof -
  have "signed_take_bit 31 (uint x) \<le> uint x - 2 ^ Suc 31"
    using assms by (rule signed_take_bit_int_less_eq)
  moreover have "uint x < 2 ^ Suc 31"
    using uint_lt2p [of x] by simp
  ultimately have "signed_take_bit 31 (uint x) < 0"
    by linarith
  then show ?thesis
    by (simp only: sint_uint32)
qed

lemma int_of_uint32_value:
  "intSize P = Int64 \<or> uint x < 2 ^ 31 \<Longrightarrow> int_of_uint32 P x = uint x"
  by (auto simp: int_of_uint32_def sint_small split: IntSize.splits)

subsection \<open>One round of the loop\<close>

lemma readLoop_oversize:
  assumes "conn \<in> set (open_conns w)"
    and "maximumPacketSize < int_of_uint32 P (BigEndian_Uint32 [la, lb, lc, ld])"
  shows "readLoop P hs conn cap (ta # tb # la # lb # lc # ld # rest) w = (Returned, w)"
  using assms
  by (subst readLoop.simps)
    (simp add: binary_Read_uint16_open binary_Read_uint32_open)

lemma readLoop_negative:
  assumes "conn \<in> set (open_conns w)"
    and "int_of_uint32 P (BigEndian_Uint32 [la, lb, lc, ld]) < 0"
  shows "readLoop P hs conn cap (ta # tb # la # lb # lc # ld # rest) w = (Panicked, w)"
proof -
  have "\<not> maximumPacketSize < int_of_uint32 P (BigEndian_Uint32 [la, lb, lc, ld])"
    using assms(2) by (simp add: maximumPacketSize_def)
  with assms show ?thesis
    by (subst readLoop.simps)
      (simp add: binary_Read_uint16_open binary_Read_uint32_open Let_def)
qed

lemma readLoop_packet:
  assumes "conn \<in> set (open_conns w)"
    and "uint (BigEndian_Uint32 [la, lb, lc, ld]) \<le> maximumPacketSize"
    and "length payload = unat (BigEndian_Uint32 [la, lb, lc, ld])"
  shows "readLoop P hs conn cap (ta # tb # la # lb # lc # ld # payload @ rest) w =
     readLoop P hs conn (max cap (unat (BigEndian_Uint32 [la, lb, lc, ld]))) rest
       (case hs (BigEndian_Uint16 [ta, tb]) of
          None \<Rightarrow> w
        | Some handle \<Rightarrow> handle w payload)"
proof -
  let ?len = "BigEndian_Uint32 [la, lb, lc, ld]"
  have small: "uint ?len < 2 ^ 31"
    using assms(2) by (simp add: maximumPacketSize_def)
  then have v: "int_of_uint32 P ?len = uint ?len"
    by (simp add: int_of_uint32_value)
  have n: "nat (uint ?len) = unat ?len"
    by simp
  have c1: "int cap < uint ?len \<Longrightarrow> max cap (unat ?len) = unat ?len"
    and c2: "\<not> int cap < uint ?len \<Longrightarrow> max cap (unat ?len) = cap"
    by (simp_all add: max_def unat_eq_nat_uint del: nat_uint_eq) linarith+
  show ?thesis
    using assms(1,2)
    by (subst readLoop.simps)
      (simp add: binary_Read_uint16_open binary_Read_uint32_open v Let_def n c1 c2
        ReadFull_payload [OF assms(1) assms(3)] split: option.splits)
qed


lemma readLoop_end_of_input: "readLoop P hs conn cap [] w = (Returned, w)"
  by (subst readLoop.simps) (simp add: binary_Read_uint16_def ReadFull_def)

text \<open>
  Where \<^verbatim>\<open>int\<close> has 32 bits, a declared length of \<open>2 ^ 31\<close> or more is negative as
  an \<^verbatim>\<open>int\<close>: it passes the size check and the slice expression panics.
\<close>

lemma readLoop_int32_panics:
  assumes "conn \<in> set (open_conns w)" and "intSize P = Int32"
    and "2 ^ 31 \<le> uint (BigEndian_Uint32 [la, lb, lc, ld])"
  shows "readLoop P hs conn cap (ta # tb # la # lb # lc # ld # rest) w = (Panicked, w)"
  using assms(2) sint_large [OF assms(3)]
  by (intro readLoop_negative [OF assms(1)]) (simp add: int_of_uint32_def)

subsection \<open>The packet size limit\<close>




subsection \<open>Packets of an unknown type\<close>

text \<open>
  Claim C7, as amended. For every inbound packet whose type has no registered
  handler and whose declared length is at most 10 MiB, the payload is consumed
  and the loop goes on with the next packet in the same world: no field of the
  client changes and nothing is added to the trace, so no event is emitted.
\<close>

theorem unknown_type_dropped:
  fixes la lb lc ld :: byte
  defines "len \<equiv> BigEndian_Uint32 [la, lb, lc, ld]"
  assumes "conn \<in> set (open_conns w)"
    and "hs (BigEndian_Uint16 [ta, tb]) = None"
    and "uint len \<le> maximumPacketSize"
    and "length payload = unat len"
  shows "readLoop P hs conn cap (ta # tb # la # lb # lc # ld # payload @ rest) w =
     readLoop P hs conn (max cap (unat len)) rest w"
  using readLoop_packet [where w = w and conn = conn and hs = hs and P = P and cap = cap
      and ta = ta and tb = tb and la = la and lb = lb and lc = lc and ld = ld
      and payload = payload and rest = rest] assms(2-)
  by (simp add: len_def)

theorem unknown_type_dropped_witness:
  "0 \<in> set (open_conns ex_connected) \<and> ex_handlers (BigEndian_Uint16 [255, 255]) = None \<and>
   uint (BigEndian_Uint32 [0, 0, 0, 2]) \<le> maximumPacketSize \<and>
   length [7, 9 :: byte] = unat (BigEndian_Uint32 [0, 0, 0, 2]) \<and>
   readLoop ex_platform ex_handlers 0 1024
       ([255, 255, 0, 0, 0, 2] @ [7, 9] @ [0, 5, 0, 0, 0, 0]) ex_connected =
     readLoop ex_platform ex_handlers 0 1024 [0, 5, 0, 0, 0, 0] ex_connected"
proof -
  have o: "0 \<in> set (open_conns ex_connected)"
    by (simp add: ex_connected_eq)
  have u: "ex_handlers (BigEndian_Uint16 [255, 255]) = None"
    by (simp add: BigEndian_Uint16_def ex_handlers_def)
  have small: "uint (BigEndian_Uint32 [0, 0, 0, 2]) \<le> maximumPacketSize"
    and n: "length [7, 9 :: byte] = unat (BigEndian_Uint32 [0, 0, 0, 2])"
    and m: "max 1024 (unat (BigEndian_Uint32 [0, 0, 0, 2])) = 1024"
    by (simp_all add: BigEndian_Uint32_def maximumPacketSize_def)
  from unknown_type_dropped [where w = ex_connected and conn = 0 and P = ex_platform
      and hs = ex_handlers and ta = 255 and tb = 255 and la = 0 and lb = 0 and lc = 0
      and ld = 2 and payload = "[7, 9]" and cap = 1024 and rest = "[0, 5, 0, 0, 0, 0]",
      OF o u small n]
  have "readLoop ex_platform ex_handlers 0 1024
       ([255, 255, 0, 0, 0, 2] @ [7, 9] @ [0, 5, 0, 0, 0, 0]) ex_connected =
     readLoop ex_platform ex_handlers 0 1024 [0, 5, 0, 0, 0, 0] ex_connected"
    by (simp add: m)
  with o u small n show ?thesis
    by (intro conjI)
qed

text \<open>
  Claim C7 as stated covers every packet of an unknown type. This one declares
  10 MiB + 1 bytes: the loop returns and the packet that follows, which alone
  would mark the client as synced, is never read.
\<close>

theorem unknown_type_oversized_counterexample:
  "ex_handlers (BigEndian_Uint16 [255, 255]) = None \<and>
   0 \<in> set (open_conns ex_connected) \<and>
   readLoop ex_platform ex_handlers 0 1024
       ([255, 255, 0, 160, 0, 1] @ replicate 10485761 0 @ [0, 5, 0, 0, 0, 0]) ex_connected =
     (Returned, ex_connected) \<and>
   readLoop ex_platform ex_handlers 0 1024 [0, 5, 0, 0, 0, 0] ex_connected =
     (Returned, ex_connected\<lparr>client := (client ex_connected)\<lparr>state := StateSynced\<rparr>\<rparr>) \<and>
   readLoop ex_platform ex_handlers 0 1024
       ([255, 255, 0, 160, 0, 1] @ replicate 10485761 0 @ [0, 5, 0, 0, 0, 0]) ex_connected \<noteq>
     readLoop ex_platform ex_handlers 0 1024 [0, 5, 0, 0, 0, 0] ex_connected"
proof -
  have o: "0 \<in> set (open_conns ex_connected)"
    by (simp add: ex_connected_eq)
  have u: "ex_handlers (BigEndian_Uint16 [255, 255]) = None"
    by (simp add: BigEndian_Uint16_def ex_handlers_def)
  have big: "maximumPacketSize < int_of_uint32 ex_platform (BigEndian_Uint32 [0, 160, 0, 1])"
    by (simp add: int_of_uint32_def ex_platform_def BigEndian_Uint32_def maximumPacketSize_def)
  have z: "uint (BigEndian_Uint32 [0, 0, 0, 0]) \<le> maximumPacketSize"
    and zn: "length ([] :: byte list) = unat (BigEndian_Uint32 [0, 0, 0, 0])"
    by (simp_all add: BigEndian_Uint32_def maximumPacketSize_def)
  have h: "ex_handlers (BigEndian_Uint16 [0, 5]) =
      Some (\<lambda>w data. w\<lparr>client := (client w)\<lparr>state := StateSynced\<rparr>\<rparr>)"
    by (simp add: BigEndian_Uint16_def ex_handlers_def)
  have next_packet: "readLoop ex_platform ex_handlers 0 1024 [0, 5, 0, 0, 0, 0] ex_connected =
      (Returned, ex_connected\<lparr>client := (client ex_connected)\<lparr>state := StateSynced\<rparr>\<rparr>)"
    using readLoop_packet [where w = ex_connected and conn = 0 and hs = ex_handlers
        and P = ex_platform and cap = 1024 and ta = 0 and tb = 5 and la = 0 and lb = 0
        and lc = 0 and ld = 0 and payload = "[]" and rest = "[]"] o z zn
    by (simp add: h readLoop_end_of_input)
  have stop: "readLoop ex_platform ex_handlers 0 1024
      ([255, 255, 0, 160, 0, 1] @ replicate 10485761 0 @ [0, 5, 0, 0, 0, 0]) ex_connected =
      (Returned, ex_connected)"
    using readLoop_oversize [where w = ex_connected and conn = 0 and hs = ex_handlers
        and P = ex_platform and cap = 1024 and ta = 255 and tb = 255 and la = 0 and lb = 160
        and lc = 0 and ld = 1 and rest = "replicate 10485761 0 @ [0, 5, 0, 0, 0, 0]"] o big
    by simp
  have differ: "ex_connected \<noteq> ex_connected\<lparr>client := (client ex_connected)\<lparr>state := StateSynced\<rparr>\<rparr>"
    by (simp add: ex_connected_eq ex_session_def)
  show ?thesis
    using o u stop next_packet differ by simp
qed

end
